theory Spec2Isabelle
  imports Complex_Main
begin

section \<open>The transfer engine of background.js\<close>

subsection \<open>Data\<close>

text \<open>
  Platforms are the strings the service worker switches on (\<open>''spotify''\<close>, \<open>''apple''\<close>,
  \<open>''youtube''\<close>, \<open>''amazon''\<close>); an error is carried by its \<open>message\<close> string, the only part
  of a thrown \<open>Error\<close> that the handlers read.
\<close>

type_synonym platform = string

record track =
  track_name :: string
  artists :: "string list"
  album :: string
  duration :: string
  position :: nat
  track_platform :: platform

record playlist =
  pl_id :: string
  pl_name :: string
  pl_description :: string
  trackCount :: nat
  pl_platform :: platform
  url :: string
  tracks :: "track list"

datatype conflict_resolution = Skip | Replace | Ask

record transfer_options =
  conflictResolution :: conflict_resolution
  batchSize :: nat

record transferData =
  sourcePlaylist :: playlist
  sourcePlatform :: platform
  targetPlatform :: platform
  options :: transfer_options

text \<open>
  \<open>transferState\<close>, the module-level object of lines 6-11. \<open>message\<close> is the property that
  \<open>updateProgress\<close> adds; it is absent until the first progress update. \<open>progress\<close> is a
  JavaScript number: the matching loop stores \<open>30 + (i / tracks.length) * 30\<close>, taken here as an
  exact rational.
\<close>

record transfer_state =
  isTransferring :: bool
  currentTransfer :: "transferData option"
  progress :: rat
  errors :: "string list"
  message :: "string option"

text \<open>The element that \<open>searchTracksOnPlatform\<close> pushes for each source track.\<close>

record match_result =
  original :: track
  found :: bool
  match :: "track option"
  error :: "string option"

record transfer_record =
  rec_sourcePlaylist :: playlist
  rec_sourcePlatform :: platform
  rec_targetPlatform :: platform
  targetPlaylist :: playlist
  transferredTracks :: nat
  totalTracks :: nat
  timestamp :: int

text \<open>
  A stored token: \<open>expires\<close> is \<open>None\<close> when the property is falsy (absent, \<open>0\<close> or \<open>NaN\<close>),
  the case in which \<open>getAuthToken\<close> skips the expiry test.
\<close>

record token =
  access_token :: string
  expires :: "int option"

text \<open>
  \<open>chrome.storage.local\<close>: a key that was never set reads as \<open>undefined\<close> (\<open>None\<close>), which the
  code replaces by \<open>{}\<close> or \<open>[]\<close>.
\<close>

record storage =
  authTokens :: "(platform \<rightharpoonup> token) option"
  transferHistory :: "transfer_record list option"

text \<open>What a message handler passes to \<open>sendResponse\<close>.\<close>

datatype response = Success string | Failure string

text \<open>
  The calls that leave the service worker for a platform, and the cancel messages it
  handles, in the order they happen. \<open>CancelHandled p\<close> records that a \<open>cancelTransfer\<close>
  message was handled when the progress stood at \<open>p\<close>.
\<close>

datatype event =
    FetchTracksCall platform string
  | SearchTrackCall platform track
  | CreatePlaylistCall platform string string
  | AddTracksCall platform string "match_result list"
  | CancelHandled rat

text \<open>
  The world a transfer runs in. \<open>inbox\<close> lists, for each coming suspension point (an
  \<open>await\<close> on storage or on a platform call), whether a \<open>cancelTransfer\<close> message is handled
  while the transfer is suspended there; past its end no message arrives. \<open>clock\<close> is the
  reading of \<open>Date.now()\<close>.
\<close>

record world =
  transferState :: transfer_state
  local_storage :: storage
  clock :: int
  inbox :: "bool list"
  calls :: "event list"

text \<open>
  The platform-specific functions (\<open>getSpotifyPlaylistTracks\<close>, \<open>searchTrack\<close>,
  \<open>createSpotifyPlaylist\<close>, \<open>addTracksToSpotifyPlaylist\<close> and their siblings) are called by
  background.js and defined in no file of the repository: they are parameters. Each one
  either throws (\<open>Inl\<close> of the message) or returns; \<open>searchTrack\<close> returns \<open>None\<close> for a
  falsy result.
\<close>

record adapters =
  getPlatformPlaylistTracks :: "platform \<Rightarrow> token option \<Rightarrow> string \<Rightarrow> string + track list"
  searchTrack :: "platform \<Rightarrow> token option \<Rightarrow> track \<Rightarrow> string + track option"
  createPlatformPlaylist :: "platform \<Rightarrow> token option \<Rightarrow> string \<Rightarrow> string \<Rightarrow> string + playlist"
  addTracksToPlatformPlaylist ::
    "platform \<Rightarrow> token option \<Rightarrow> string \<Rightarrow> match_result list \<Rightarrow> string + unit"

subsection \<open>Message handlers\<close>

text \<open>
  \<open>handleStartTransfer\<close> (lines 220-241) returns the new state, the response, and the
  request handed to \<open>performTransfer\<close> when the transfer was started. The \<open>throw\<close> of line 223
  lands in the \<open>catch\<close> of line 236, which clears \<open>isTransferring\<close> before it responds.
\<close>

definition handleStartTransfer ::
  "transferData \<Rightarrow> transfer_state \<Rightarrow> transfer_state \<times> response \<times> transferData option" where
  "handleStartTransfer td ts =
     (if isTransferring ts
      then (ts\<lparr>isTransferring := False\<rparr>, Failure ''Transfer already in progress'', None)
      else (ts\<lparr>isTransferring := True, currentTransfer := Some td, progress := 0, errors := []\<rparr>,
            Success ''Transfer started'', Some td))"

text \<open>\<open>handleCancelTransfer\<close> (lines 244-249).\<close>

definition handleCancelTransfer :: "transfer_state \<Rightarrow> transfer_state \<times> response" where
  "handleCancelTransfer ts =
     (ts\<lparr>isTransferring := False, currentTransfer := None, progress := 0\<rparr>,
      Success ''Transfer cancelled'')"

subsection \<open>Suspension points\<close>

text \<open>
  While \<open>performTransfer\<close> waits at an \<open>await\<close>, the service worker handles the messages
  that arrive. \<open>suspend\<close> takes the next entry of the inbox and runs \<open>handleCancelTransfer\<close>
  when it says so.
\<close>

definition deliver_cancel :: "world \<Rightarrow> world" where
  "deliver_cancel w =
     w\<lparr>transferState := fst (handleCancelTransfer (transferState w)),
       calls := calls w @ [CancelHandled (progress (transferState w))]\<rparr>"

definition suspend :: "world \<Rightarrow> world" where
  "suspend w =
     (case inbox w of
        [] \<Rightarrow> w
      | b # bs \<Rightarrow> (if b then deliver_cancel (w\<lparr>inbox := bs\<rparr>) else w\<lparr>inbox := bs\<rparr>))"

definition log_call :: "event \<Rightarrow> world \<Rightarrow> world" where
  "log_call e w = w\<lparr>calls := calls w @ [e]\<rparr>"

subsection \<open>The transfer\<close>

text \<open>
  \<open>updateProgress\<close> (lines 500-512). The notification it sends to the popup is not
  modelled; the popup reads the same two values from \<open>transferState\<close>.
\<close>

definition updateProgress :: "rat \<Rightarrow> string \<Rightarrow> world \<Rightarrow> world" where
  "updateProgress p m w = w\<lparr>transferState := (transferState w)\<lparr>progress := p, message := Some m\<rparr>\<rparr>"

text \<open>\<open>getAuthToken\<close> (lines 342-356): one storage read, then the expiry test.\<close>

definition getAuthToken :: "platform \<Rightarrow> world \<Rightarrow> token option \<times> world" where
  "getAuthToken platform w =
     (let w1 = suspend w;
          tokens = (case authTokens (local_storage w1) of None \<Rightarrow> Map.empty | Some m \<Rightarrow> m)
      in case tokens platform of
           None \<Rightarrow> (None, w1)
         | Some tok \<Rightarrow>
             (case expires tok of
                None \<Rightarrow> (Some tok, w1)
              | Some e \<Rightarrow> (if clock w1 > e then (None, w1) else (Some tok, w1))))"

text \<open>
  The three \<open>switch\<close> statements of lines 518-527, 564-573 and 581-590 have the same cases.
\<close>

definition supported :: "platform \<Rightarrow> bool" where
  "supported platform = (platform = ''spotify'' \<or> platform = ''apple'' \<or> platform = ''youtube'')"

text \<open>\<open>getPlaylistTracks\<close> (lines 515-528).\<close>

definition getPlaylistTracks ::
  "adapters \<Rightarrow> platform \<Rightarrow> string \<Rightarrow> world \<Rightarrow> (string + track list) \<times> world" where
  "getPlaylistTracks env platform playlistId w =
     (case getAuthToken platform w of
        (tok, w1) \<Rightarrow>
          if supported platform
          then (getPlatformPlaylistTracks env platform tok playlistId,
                suspend (log_call (FetchTracksCall platform playlistId) w1))
          else (Inl (''Platform '' @ platform @ '' not supported for track fetching''), w1))"

text \<open>
  The loop of \<open>searchTracksOnPlatform\<close> (lines 535-555): \<open>n\<close> is \<open>tracks.length\<close>, \<open>i\<close> the loop
  index, the list argument holds \<open>tracks[i], tracks[i+1], ...\<close>, and \<open>results\<close> is the array
  being filled.
\<close>

definition search_result :: "track \<Rightarrow> string + track option \<Rightarrow> match_result" where
  "search_result t r =
     (case r of
        Inr searchResult \<Rightarrow>
          \<lparr>original = t, found = (searchResult \<noteq> None), match = searchResult, error = None\<rparr>
      | Inl msg \<Rightarrow> \<lparr>original = t, found = False, match = None, error = Some msg\<rparr>)"

fun search_loop ::
  "adapters \<Rightarrow> platform \<Rightarrow> token option \<Rightarrow> nat \<Rightarrow> nat \<Rightarrow> track list \<Rightarrow> match_result list \<Rightarrow> world
     \<Rightarrow> match_result list \<times> world" where
  "search_loop env platform tok n i [] results w = (results, w)"
| "search_loop env platform tok n i (t # rest) results w =
     (let w1 = suspend (log_call (SearchTrackCall platform t) w);
          results1 = results @ [search_result t (searchTrack env platform tok t)];
          w2 = updateProgress (30 + (of_nat i / of_nat n) * 30) (''Searching: '' @ track_name t) w1
      in search_loop env platform tok n (Suc i) rest results1 w2)"

text \<open>\<open>searchTracksOnPlatform\<close> (lines 531-558).\<close>

definition searchTracksOnPlatform ::
  "adapters \<Rightarrow> platform \<Rightarrow> track list \<Rightarrow> world \<Rightarrow> match_result list \<times> world" where
  "searchTracksOnPlatform env platform trs w =
     (case getAuthToken platform w of
        (tok, w1) \<Rightarrow> search_loop env platform tok (length trs) 0 trs [] w1)"

text \<open>\<open>createPlaylist\<close> (lines 561-574).\<close>

definition createPlaylist ::
  "adapters \<Rightarrow> platform \<Rightarrow> string \<Rightarrow> string \<Rightarrow> world \<Rightarrow> (string + playlist) \<times> world" where
  "createPlaylist env platform nm descr w =
     (case getAuthToken platform w of
        (tok, w1) \<Rightarrow>
          if supported platform
          then (createPlatformPlaylist env platform tok nm descr,
                suspend (log_call (CreatePlaylistCall platform nm descr) w1))
          else (Inl (''Platform '' @ platform @ '' not supported for playlist creation''), w1))"

text \<open>\<open>addTracksToPlaylist\<close> (lines 577-591); \<open>validTracks\<close> is the filter of line 579.\<close>

definition validTracks :: "match_result list \<Rightarrow> match_result list" where
  "validTracks trs = filter (\<lambda>t. found t \<and> match t \<noteq> None) trs"

definition addTracksToPlaylist ::
  "adapters \<Rightarrow> platform \<Rightarrow> string \<Rightarrow> match_result list \<Rightarrow> world \<Rightarrow> (string + unit) \<times> world" where
  "addTracksToPlaylist env platform playlistId trs w =
     (case getAuthToken platform w of
        (tok, w1) \<Rightarrow>
          if supported platform
          then (addTracksToPlatformPlaylist env platform tok playlistId (validTracks trs),
                suspend (log_call (AddTracksCall platform playlistId (validTracks trs)) w1))
          else (Inl (''Platform '' @ platform @ '' not supported for adding tracks''), w1))"

text \<open>
  \<open>saveTransferHistory\<close> (lines 594-606): \<open>unshift\<close>, then \<open>splice(50)\<close> when the array is
  longer than 50, between a storage read and a storage write.
\<close>

definition saveTransferHistory :: "transfer_record \<Rightarrow> world \<Rightarrow> world" where
  "saveTransferHistory transferRecord w =
     (let w1 = suspend w;
          history = (case transferHistory (local_storage w1) of None \<Rightarrow> [] | Some h \<Rightarrow> h);
          history1 = transferRecord # history;
          history2 = (if length history1 > 50 then take 50 history1 else history1)
      in suspend (w1\<lparr>local_storage := (local_storage w1)\<lparr>transferHistory := Some history2\<rparr>\<rparr>))"

text \<open>The body of the \<open>try\<close> of \<open>performTransfer\<close> (lines 456-488).\<close>

definition performTransfer_try :: "adapters \<Rightarrow> transferData \<Rightarrow> world \<Rightarrow> (string + unit) \<times> world" where
  "performTransfer_try env td w =
     (case getPlaylistTracks env (sourcePlatform td) (pl_id (sourcePlaylist td))
             (updateProgress 10 ''Fetching source playlist tracks...'' w) of
        (Inl e, w1) \<Rightarrow> (Inl e, w1)
      | (Inr sourceTracks, w1) \<Rightarrow>
     (case searchTracksOnPlatform env (targetPlatform td) sourceTracks
             (updateProgress 30 ''Searching for tracks on target platform...'' w1) of
        (matchedTracks, w2) \<Rightarrow>
     (case createPlaylist env (targetPlatform td)
             (pl_name (sourcePlaylist td)) (pl_description (sourcePlaylist td))
             (updateProgress 60 ''Creating target playlist...'' w2) of
        (Inl e, w3) \<Rightarrow> (Inl e, w3)
      | (Inr target, w3) \<Rightarrow>
     (case addTracksToPlaylist env (targetPlatform td) (pl_id target) matchedTracks
             (updateProgress 80 ''Adding tracks to target playlist...'' w3) of
        (Inl e, w4) \<Rightarrow> (Inl e, w4)
      | (Inr _, w4) \<Rightarrow>
          (Inr (),
           updateProgress 100 ''Transfer completed successfully!''
             (saveTransferHistory
                \<lparr>rec_sourcePlaylist = sourcePlaylist td,
                 rec_sourcePlatform = sourcePlatform td,
                 rec_targetPlatform = targetPlatform td,
                 targetPlaylist = target,
                 transferredTracks = length (filter found matchedTracks),
                 totalTracks = length sourceTracks,
                 timestamp = clock w4\<rparr> w4))))))"

text \<open>
  \<open>performTransfer\<close> (lines 454-497): the \<open>catch\<close> appends the message to \<open>errors\<close> and
  repeats the current progress with the failure message; the \<open>finally\<close> clears
  \<open>isTransferring\<close>.
\<close>

definition catch_transfer :: "string \<Rightarrow> world \<Rightarrow> world" where
  "catch_transfer msg w =
     (let w1 = w\<lparr>transferState := (transferState w)\<lparr>errors := errors (transferState w) @ [msg]\<rparr>\<rparr>
      in updateProgress (progress (transferState w1)) (''Transfer failed: '' @ msg) w1)"

definition finally_transfer :: "world \<Rightarrow> world" where
  "finally_transfer w = w\<lparr>transferState := (transferState w)\<lparr>isTransferring := False\<rparr>\<rparr>"

definition performTransfer :: "adapters \<Rightarrow> transferData \<Rightarrow> world \<Rightarrow> world" where
  "performTransfer env td w =
     (case performTransfer_try env td w of
        (Inl msg, w1) \<Rightarrow> finally_transfer (catch_transfer msg w1)
      | (Inr _, w1) \<Rightarrow> finally_transfer w1)"

subsection \<open>Retry\<close>

text \<open>
  \<open>retryOperation\<close> (lines 612-625). The operation is a closure that may answer differently
  each time: \<open>operation k\<close> is what its invocation number \<open>k\<close> (counted from 0) does, \<open>Inl\<close>
  of the thrown error or \<open>Inr\<close> of the value. The result tells how the call ended, how often
  the operation was invoked, and the delays (in milliseconds) waited between attempts. When
  the loop ends without entering its body the function returns \<open>undefined\<close>.
\<close>

datatype ('e, 'a) outcome = Returned 'a | ReturnedUndefined | Threw 'e

record ('e, 'a) retry_result =
  outcome :: "('e, 'a) outcome"
  invocations :: nat
  waits :: "nat list"

function retry_loop ::
  "(nat \<Rightarrow> 'e + 'a) \<Rightarrow> nat \<Rightarrow> nat \<Rightarrow> nat \<Rightarrow> nat list \<Rightarrow> ('e, 'a) retry_result" where
  "retry_loop operation maxRetries attempt invoked ws =
     (if attempt \<le> maxRetries
      then (case operation invoked of
              Inr v \<Rightarrow> \<lparr>outcome = Returned v, invocations = Suc invoked, waits = ws\<rparr>
            | Inl err \<Rightarrow>
                if attempt = maxRetries
                then \<lparr>outcome = Threw err, invocations = Suc invoked, waits = ws\<rparr>
                else retry_loop operation maxRetries (Suc attempt) (Suc invoked)
                       (ws @ [1000 * attempt]))
      else \<lparr>outcome = ReturnedUndefined, invocations = invoked, waits = ws\<rparr>)"
  by pat_completeness auto
termination
  by (relation "measure (\<lambda>(operation, maxRetries, attempt, invoked, ws). Suc maxRetries - attempt)") auto

definition retryOperation :: "(nat \<Rightarrow> 'e + 'a) \<Rightarrow> nat \<Rightarrow> ('e, 'a) retry_result" where
  "retryOperation operation maxRetries = retry_loop operation maxRetries 1 0 []"

text \<open>Called with the operation alone, \<open>maxRetries\<close> takes its default.\<close>

definition retryOperation_default :: "(nat \<Rightarrow> 'e + 'a) \<Rightarrow> ('e, 'a) retry_result" where
  "retryOperation_default operation = retryOperation operation 3"

text \<open>
  Modelled from the spec: the error taxonomy of its section 7, which background.js does not
  have (it throws plain \<open>Error\<close> objects and never classifies them). Only
  \<open>TransientError\<close> is transient.
\<close>

datatype error_kind =
  ValidationError | ConflictError | AuthError | QuotaError | NotFoundError | TransientError

definition isTransient :: "error_kind \<Rightarrow> bool" where
  "isTransient e = (e = TransientError)"

text \<open>An operation that fails with \<open>AuthError\<close> whenever it is invoked.\<close>

definition always_AuthError :: "nat \<Rightarrow> error_kind + unit" where
  "always_AuthError k = Inl AuthError"

subsection \<open>Observations\<close>

text \<open>The stored history as \<open>saveTransferHistory\<close> reads it (\<open>result.transferHistory || []\<close>).\<close>

definition history_of :: "world \<Rightarrow> transfer_record list" where
  "history_of w = (case transferHistory (local_storage w) of None \<Rightarrow> [] | Some h \<Rightarrow> h)"

text \<open>The track lists handed to the platform's add function, in the order of the calls.\<close>

fun addTracks_submissions :: "event list \<Rightarrow> match_result list list" where
  "addTracks_submissions [] = []"
| "addTracks_submissions (AddTracksCall p pid ts # evs) = ts # addTracks_submissions evs"
| "addTracks_submissions (_ # evs) = addTracks_submissions evs"

text \<open>
  The token \<open>getAuthToken\<close> returns in a world; it depends on the stored tokens and the
  clock only.
\<close>

definition current_token :: "platform \<Rightarrow> world \<Rightarrow> token option" where
  "current_token platform w = fst (getAuthToken platform w)"

text \<open>A source track resolves when \<open>searchTrack\<close> returns a (truthy) track for it.\<close>

definition resolves :: "adapters \<Rightarrow> platform \<Rightarrow> token option \<Rightarrow> track \<Rightarrow> bool" where
  "resolves env p tok t = (case searchTrack env p tok t of Inr (Some m) \<Rightarrow> True | _ \<Rightarrow> False)"

subsection \<open>Concrete requests, adapters and worlds\<close>

text \<open>The inputs at which the theorems below are evaluated.\<close>

definition sample_track :: "nat \<Rightarrow> track" where
  "sample_track k =
     \<lparr>track_name = ''Song'', artists = [''Artist''], album = ''Album'', duration = ''3:00'',
      position = k, track_platform = ''spotify''\<rparr>"

definition sample_playlist :: "track list \<Rightarrow> playlist" where
  "sample_playlist trs =
     \<lparr>pl_id = ''source-1'', pl_name = ''Mix'', pl_description = '''', trackCount = length trs,
      pl_platform = ''spotify'', url = ''https://open.spotify.com/playlist/source-1'',
      tracks = trs\<rparr>"

definition created_playlist :: "platform \<Rightarrow> string \<Rightarrow> string \<Rightarrow> playlist" where
  "created_playlist p nm descr =
     \<lparr>pl_id = ''target-1'', pl_name = nm, pl_description = descr, trackCount = 0,
      pl_platform = p, url = '''', tracks = []\<rparr>"

definition two_tracks :: "track list" where
  "two_tracks = [sample_track 1, sample_track 2]"

text \<open>A request from Spotify to YouTube Music with the given batch size.\<close>

definition sample_request :: "track list \<Rightarrow> nat \<Rightarrow> transferData" where
  "sample_request trs b =
     \<lparr>sourcePlaylist = sample_playlist trs, sourcePlatform = ''spotify'',
      targetPlatform = ''youtube'',
      options = \<lparr>conflictResolution = Skip, batchSize = b\<rparr>\<rparr>"

text \<open>A request whose two platforms are the same and whose playlist has no tracks.\<close>

definition same_platform_request :: transferData where
  "same_platform_request =
     \<lparr>sourcePlaylist = sample_playlist [], sourcePlatform = ''spotify'',
      targetPlatform = ''spotify'',
      options = \<lparr>conflictResolution = Skip, batchSize = 50\<rparr>\<rparr>"

text \<open>The state of lines 6-11, and the state of a job in its matching phase.\<close>

definition idle_state :: transfer_state where
  "idle_state =
     \<lparr>isTransferring = False, currentTransfer = None, progress = 0, errors = [], message = None\<rparr>"

definition running_state :: transfer_state where
  "running_state =
     \<lparr>isTransferring = True,
      currentTransfer = Some (sample_request two_tracks 50),
      progress = 45, errors = [], message = Some ''Searching: Song''\<rparr>"

text \<open>
  A search that finds every track, and one that finds nothing for the track at position 2
  and throws for the track at position 9.
\<close>

definition finds_all :: "platform \<Rightarrow> token option \<Rightarrow> track \<Rightarrow> string + track option" where
  "finds_all p tok t = Inr (Some (t\<lparr>track_platform := p\<rparr>))"

definition finds_some :: "platform \<Rightarrow> token option \<Rightarrow> track \<Rightarrow> string + track option" where
  "finds_some p tok t =
     (if position t = 2 then Inr None
      else if position t = 9 then Inl ''Network error''
      else Inr (Some (t\<lparr>track_platform := p\<rparr>)))"

text \<open>Adapters that fetch the given tracks, search with the given function and never fail otherwise.\<close>

definition sample_adapters ::
  "track list \<Rightarrow> (platform \<Rightarrow> token option \<Rightarrow> track \<Rightarrow> string + track option) \<Rightarrow> adapters" where
  "sample_adapters trs search =
     \<lparr>getPlatformPlaylistTracks = (\<lambda>p tok pid. Inr trs),
      searchTrack = search,
      createPlatformPlaylist = (\<lambda>p tok nm descr. Inr (created_playlist p nm descr)),
      addTracksToPlatformPlaylist = (\<lambda>p tok pid trs. Inr ())\<rparr>"

text \<open>
  A world in which a transfer of the given request has just been started, with a valid
  token for Spotify and for YouTube Music, an empty history and the given inbox.
\<close>

definition sample_token :: token where
  "sample_token = \<lparr>access_token = ''secret'', expires = Some 1800000000000\<rparr>"

definition started_world :: "transferData \<Rightarrow> bool list \<Rightarrow> world" where
  "started_world td msgs =
     \<lparr>transferState = fst (handleStartTransfer td idle_state),
      local_storage =
        \<lparr>authTokens = Some (map_of [(''spotify'', sample_token), (''youtube'', sample_token)]),
         transferHistory = Some []\<rparr>,
      clock = 1700000000000,
      inbox = msgs,
      calls = []\<rparr>"

text \<open>A record that differs from the others by its timestamp.\<close>

definition sample_record :: "nat \<Rightarrow> transfer_record" where
  "sample_record k =
     \<lparr>rec_sourcePlaylist = sample_playlist [], rec_sourcePlatform = ''spotify'',
      rec_targetPlatform = ''youtube'', targetPlaylist = created_playlist ''youtube'' ''Mix'' '''',
      transferredTracks = 0, totalTracks = 0, timestamp = int k\<rparr>"

text \<open>An operation that fails once with a transient error and then returns 7.\<close>

definition fails_once :: "nat \<Rightarrow> error_kind + nat" where
  "fails_once k = (if k = 0 then Inl TransientError else Inr 7)"

text \<open>
  Two runs of a two-track transfer in which a \<open>cancelTransfer\<close> message arrives: while the
  first \<open>searchTrack\<close> call is in flight (the fourth suspension point), and while the add call
  is in flight (the ninth).
\<close>

definition cancelled_while_matching :: world where
  "cancelled_while_matching =
     performTransfer (sample_adapters two_tracks finds_all) (sample_request two_tracks 50)
       (started_world (sample_request two_tracks 50) [False, False, False, True])"

definition cancelled_while_inserting :: world where
  "cancelled_while_inserting =
     performTransfer (sample_adapters two_tracks finds_all) (sample_request two_tracks 50)
       (started_world (sample_request two_tracks 50)
          [False, False, False, False, False, False, False, False, True])"

text \<open>A run with batch size 2 in which all five source tracks are matched.\<close>

definition five_tracks :: "track list" where
  "five_tracks = map sample_track [1, 3, 4, 5, 6]"

definition five_matched_run :: world where
  "five_matched_run =
     performTransfer (sample_adapters five_tracks finds_some) (sample_request five_tracks 2)
       (started_world (sample_request five_tracks 2) [])"

text \<open>
  Three tracks of which the second is absent on the target, and three of which the second
  is absent and the search for the third throws.
\<close>

definition three_tracks :: "track list" where
  "three_tracks = map sample_track [1, 2, 3]"

definition failing_tracks :: "track list" where
  "failing_tracks = map sample_track [1, 2, 9]"

text \<open>A request whose source platform none of the \<open>switch\<close> statements knows.\<close>

definition amazon_request :: transferData where
  "amazon_request = (sample_request three_tracks 50)\<lparr>sourcePlatform := ''amazon''\<rparr>"

definition fifty_one_records :: "transfer_record list" where
  "fifty_one_records = map sample_record [0..<51]"

section \<open>Proofs\<close>

subsection \<open>Retry loop\<close>


declare retry_loop.simps [simp del]

lemma retry_loop_exit:
  "\<not> attempt \<le> maxRetries \<Longrightarrow>
   retry_loop operation maxRetries attempt invoked ws =
     \<lparr>outcome = ReturnedUndefined, invocations = invoked, waits = ws\<rparr>"
  by (subst retry_loop.simps) simp

lemma retry_loop_return:
  "attempt \<le> maxRetries \<Longrightarrow> operation invoked = Inr v \<Longrightarrow>
   retry_loop operation maxRetries attempt invoked ws =
     \<lparr>outcome = Returned v, invocations = Suc invoked, waits = ws\<rparr>"
  by (subst retry_loop.simps) simp

lemma retry_loop_throw:
  "attempt = maxRetries \<Longrightarrow> operation invoked = Inl err \<Longrightarrow>
   retry_loop operation maxRetries attempt invoked ws =
     \<lparr>outcome = Threw err, invocations = Suc invoked, waits = ws\<rparr>"
  by (subst retry_loop.simps) simp

lemma retry_loop_again:
  "attempt < maxRetries \<Longrightarrow> operation invoked = Inl err \<Longrightarrow>
   retry_loop operation maxRetries attempt invoked ws =
     retry_loop operation maxRetries (Suc attempt) (Suc invoked) (ws @ [1000 * attempt])"
  by (subst retry_loop.simps) simp

lemma retry_loop_invocations:
  "attempt = Suc invoked \<Longrightarrow>
   invocations (retry_loop operation maxRetries attempt invoked ws) \<le> max invoked maxRetries"
proof (induction "Suc maxRetries - attempt" arbitrary: attempt invoked ws)
  case 0
  then show ?case by (simp add: retry_loop_exit)
next
  case (Suc d)
  then have le: "attempt \<le> maxRetries" by simp
  show ?case
  proof (cases "operation invoked")
    case (Inr v)
    with le Suc.prems show ?thesis by (simp add: retry_loop_return)
  next
    case (Inl err)
    show ?thesis
    proof (cases "attempt = maxRetries")
      case True
      with Inl Suc.prems show ?thesis by (simp add: retry_loop_throw)
    next
      case False
      with le have lt: "attempt < maxRetries" by simp
      have "d = Suc maxRetries - Suc attempt" using Suc.hyps(2) by simp
      from Suc.hyps(1)[OF this, of "Suc invoked"] Suc.prems lt Inl
      show ?thesis by (simp add: retry_loop_again)
    qed
  qed
qed

lemma retry_loop_all_fail:
  "attempt = Suc invoked \<Longrightarrow> attempt \<le> maxRetries \<Longrightarrow> \<forall>k<maxRetries. isl (operation k) \<Longrightarrow>
   retry_loop operation maxRetries attempt invoked ws =
     \<lparr>outcome = Threw (projl (operation (maxRetries - 1))), invocations = maxRetries,
      waits = ws @ map (\<lambda>a. 1000 * a) [attempt..<maxRetries]\<rparr>"
proof (induction "maxRetries - attempt" arbitrary: attempt invoked ws)
  case 0
  then have eq: "attempt = maxRetries" by simp
  with 0 have "isl (operation invoked)" by simp
  then obtain err where e: "operation invoked = Inl err" by (cases "operation invoked") auto
  moreover from eq 0 have "maxRetries - 1 = invoked" "Suc invoked = maxRetries" by simp_all
  ultimately show ?case using eq by (simp add: retry_loop_throw)
next
  case (Suc d)
  then have lt: "attempt < maxRetries" by simp
  with Suc have "isl (operation invoked)" by simp
  then obtain err where e: "operation invoked = Inl err" by (cases "operation invoked") auto
  have "d = maxRetries - Suc attempt" using Suc.hyps(2) by simp
  from Suc.hyps(1)[OF this, of "Suc invoked"] Suc.prems lt e
  show ?case by (simp add: retry_loop_again upt_conv_Cons)
qed

lemma retry_loop_first_success:
  "attempt = Suc invoked \<Longrightarrow> invoked \<le> k \<Longrightarrow> k < maxRetries \<Longrightarrow>
   \<forall>j<k. isl (operation j) \<Longrightarrow> operation k = Inr v \<Longrightarrow>
   retry_loop operation maxRetries attempt invoked ws =
     \<lparr>outcome = Returned v, invocations = Suc k,
      waits = ws @ map (\<lambda>a. 1000 * a) [attempt..<Suc k]\<rparr>"
proof (induction "k - invoked" arbitrary: attempt invoked ws)
  case 0
  then have "invoked = k" by simp
  with 0 show ?case by (simp add: retry_loop_return)
next
  case (Suc d)
  then have lt: "invoked < k" by simp
  with Suc have "isl (operation invoked)" by simp
  then obtain err where e: "operation invoked = Inl err" by (cases "operation invoked") auto
  have lt2: "attempt < maxRetries" using Suc.prems lt by simp
  have "d = k - Suc invoked" using Suc.hyps(2) by simp
  from Suc.hyps(1)[OF this, of "Suc attempt"] Suc.prems lt lt2 e
  show ?case by (simp add: retry_loop_again upt_conv_Cons)
qed

subsection \<open>The transfer: what each step leaves unchanged\<close>


lemma addTracks_submissions_append [simp]:
  "addTracks_submissions (xs @ ys) = addTracks_submissions xs @ addTracks_submissions ys"
  by (induction xs rule: addTracks_submissions.induct) simp_all

lemma suspend_frame [simp]:
  "local_storage (suspend w) = local_storage w"
  "clock (suspend w) = clock w"
  "addTracks_submissions (calls (suspend w)) = addTracks_submissions (calls w)"
  by (simp_all add: suspend_def deliver_cancel_def split: list.splits)

lemma updateProgress_frame [simp]:
  "local_storage (updateProgress p m w) = local_storage w"
  "clock (updateProgress p m w) = clock w"
  "calls (updateProgress p m w) = calls w"
  "inbox (updateProgress p m w) = inbox w"
  by (simp_all add: updateProgress_def)

lemma log_call_frame [simp]:
  "local_storage (log_call e w) = local_storage w"
  "clock (log_call e w) = clock w"
  "calls (log_call e w) = calls w @ [e]"
  by (simp_all add: log_call_def)

lemma getAuthToken_frame [simp]:
  "local_storage (snd (getAuthToken p w)) = local_storage w"
  "clock (snd (getAuthToken p w)) = clock w"
  "addTracks_submissions (calls (snd (getAuthToken p w))) = addTracks_submissions (calls w)"
  by (simp_all add: getAuthToken_def Let_def split: option.splits)

lemma getAuthToken_world: "snd (getAuthToken p w) = suspend w"
  by (simp add: getAuthToken_def Let_def split: option.splits)

lemma current_token_cong:
  "local_storage w' = local_storage w \<Longrightarrow> clock w' = clock w \<Longrightarrow>
   current_token p w' = current_token p w"
  by (simp add: current_token_def getAuthToken_def Let_def split: option.splits)

lemma search_loop_results:
  "fst (search_loop env p tok n i trs results w) =
     results @ map (\<lambda>t. search_result t (searchTrack env p tok t)) trs"
  by (induction trs arbitrary: i results w) (simp_all add: Let_def)

lemma search_loop_frame [simp]:
  "local_storage (snd (search_loop env p tok n i trs results w)) = local_storage w"
  "clock (snd (search_loop env p tok n i trs results w)) = clock w"
  "addTracks_submissions (calls (snd (search_loop env p tok n i trs results w))) = addTracks_submissions (calls w)"
  by (induction trs arbitrary: i results w; simp add: Let_def)+

lemma searchTracksOnPlatform_results:
  "fst (searchTracksOnPlatform env p trs w) =
     map (\<lambda>t. search_result t (searchTrack env p (current_token p w) t)) trs"
  by (simp add: searchTracksOnPlatform_def current_token_def search_loop_results case_prod_beta)

lemma searchTracksOnPlatform_frame [simp]:
  "local_storage (snd (searchTracksOnPlatform env p trs w)) = local_storage w"
  "clock (snd (searchTracksOnPlatform env p trs w)) = clock w"
  "addTracks_submissions (calls (snd (searchTracksOnPlatform env p trs w))) = addTracks_submissions (calls w)"
  by (simp_all add: searchTracksOnPlatform_def case_prod_beta)


lemma getPlaylistTracks_result:
  "fst (getPlaylistTracks env p pid w) =
     (if supported p then getPlatformPlaylistTracks env p (current_token p w) pid
      else Inl (''Platform '' @ p @ '' not supported for track fetching''))"
  by (simp add: getPlaylistTracks_def current_token_def case_prod_beta)

lemma getPlaylistTracks_frame [simp]:
  "local_storage (snd (getPlaylistTracks env p pid w)) = local_storage w"
  "clock (snd (getPlaylistTracks env p pid w)) = clock w"
  "addTracks_submissions (calls (snd (getPlaylistTracks env p pid w))) = addTracks_submissions (calls w)"
  by (simp_all add: getPlaylistTracks_def case_prod_beta)

lemma createPlaylist_result:
  "fst (createPlaylist env p nm d w) =
     (if supported p then createPlatformPlaylist env p (current_token p w) nm d
      else Inl (''Platform '' @ p @ '' not supported for playlist creation''))"
  by (simp add: createPlaylist_def current_token_def case_prod_beta)

lemma createPlaylist_frame [simp]:
  "local_storage (snd (createPlaylist env p nm d w)) = local_storage w"
  "clock (snd (createPlaylist env p nm d w)) = clock w"
  "addTracks_submissions (calls (snd (createPlaylist env p nm d w))) = addTracks_submissions (calls w)"
  by (simp_all add: createPlaylist_def case_prod_beta)

lemma addTracksToPlaylist_result:
  "fst (addTracksToPlaylist env p pid trs w) =
     (if supported p then addTracksToPlatformPlaylist env p (current_token p w) pid (validTracks trs)
      else Inl (''Platform '' @ p @ '' not supported for adding tracks''))"
  by (simp add: addTracksToPlaylist_def current_token_def case_prod_beta)

lemma addTracksToPlaylist_frame [simp]:
  "local_storage (snd (addTracksToPlaylist env p pid trs w)) = local_storage w"
  "clock (snd (addTracksToPlaylist env p pid trs w)) = clock w"
  by (simp_all add: addTracksToPlaylist_def case_prod_beta)

lemma addTracksToPlaylist_submissions:
  "addTracks_submissions (calls (snd (addTracksToPlaylist env p pid trs w))) =
     addTracks_submissions (calls w) @ (if supported p then [validTracks trs] else [])"
  by (simp add: addTracksToPlaylist_def case_prod_beta)

lemma saveTransferHistory_history:
  "history_of (saveTransferHistory r w) = take 50 (r # history_of w)"
  by (simp add: saveTransferHistory_def history_of_def Let_def)

lemma saveTransferHistory_frame [simp]:
  "authTokens (local_storage (saveTransferHistory r w)) = authTokens (local_storage w)"
  "clock (saveTransferHistory r w) = clock w"
  "addTracks_submissions (calls (saveTransferHistory r w)) = addTracks_submissions (calls w)"
  by (simp_all add: saveTransferHistory_def Let_def)


lemma found_search_result [simp]:
  "found (search_result t r) = (case r of Inr (Some m) \<Rightarrow> True | _ \<Rightarrow> False)"
  "match (search_result t r) = (case r of Inr sr \<Rightarrow> sr | Inl e \<Rightarrow> None)"
  "error (search_result t r) = (case r of Inr sr \<Rightarrow> None | Inl e \<Rightarrow> Some e)"
  "original (search_result t r) = t"
  by (simp_all add: search_result_def split: sum.splits option.splits)

lemma filter_found_results:
  "map original (filter found (map (\<lambda>t. search_result t (searchTrack env p tok t)) trs)) =
     filter (resolves env p tok) trs"
  by (induction trs) (simp_all add: resolves_def)

lemma validTracks_results:
  "validTracks (map (\<lambda>t. search_result t (searchTrack env p tok t)) trs) =
     filter found (map (\<lambda>t. search_result t (searchTrack env p tok t)) trs)"
  unfolding validTracks_def
  by (rule filter_cong) (auto split: sum.splits option.splits)


lemma same_env_token:
  "local_storage w1 = local_storage w \<Longrightarrow> clock w1 = clock w \<Longrightarrow>
   current_token p (updateProgress q m w1) = current_token p w"
  by (rule current_token_cong) simp_all

lemma performTransfer_try_Inr:
  assumes "performTransfer_try env td w = (Inr u, w')"
  defines "src \<equiv> sourcePlatform td" and "tgt \<equiv> targetPlatform td"
  shows "\<exists>sourceTracks target.
           supported src \<and> supported tgt
         \<and> getPlatformPlaylistTracks env src (current_token src w) (pl_id (sourcePlaylist td)) = Inr sourceTracks
         \<and> createPlatformPlaylist env tgt (current_token tgt w)
              (pl_name (sourcePlaylist td)) (pl_description (sourcePlaylist td)) = Inr target
         \<and> history_of w' =
              take 50 (\<lparr>rec_sourcePlaylist = sourcePlaylist td,
                        rec_sourcePlatform = src,
                        rec_targetPlatform = tgt,
                        targetPlaylist = target,
                        transferredTracks = length (filter (resolves env tgt (current_token tgt w)) sourceTracks),
                        totalTracks = length sourceTracks,
                        timestamp = clock w\<rparr> # history_of w)
         \<and> addTracks_submissions (calls w') = addTracks_submissions (calls w) @
              [map (\<lambda>t. search_result t (searchTrack env tgt (current_token tgt w) t))
                 (filter (resolves env tgt (current_token tgt w)) sourceTracks)]"
proof -
  let ?pid = "pl_id (sourcePlaylist td)"
  let ?nm = "pl_name (sourcePlaylist td)"
  let ?d = "pl_description (sourcePlaylist td)"
  define wa where "wa = updateProgress 10 ''Fetching source playlist tracks...'' w"
  define r1 where "r1 = fst (getPlaylistTracks env src ?pid wa)"
  define w1 where "w1 = snd (getPlaylistTracks env src ?pid wa)"
  define wb where "wb = updateProgress 30 ''Searching for tracks on target platform...'' w1"
  define matched where "matched = fst (searchTracksOnPlatform env tgt (projr r1) wb)"
  define w2 where "w2 = snd (searchTracksOnPlatform env tgt (projr r1) wb)"
  define wc where "wc = updateProgress 60 ''Creating target playlist...'' w2"
  define r3 where "r3 = fst (createPlaylist env tgt ?nm ?d wc)"
  define w3 where "w3 = snd (createPlaylist env tgt ?nm ?d wc)"
  define wd where "wd = updateProgress 80 ''Adding tracks to target playlist...'' w3"
  define r4 where "r4 = fst (addTracksToPlaylist env tgt (pl_id (projr r3)) matched wd)"
  define w4 where "w4 = snd (addTracksToPlaylist env tgt (pl_id (projr r3)) matched wd)"
  note defs = wa_def r1_def w1_def wb_def matched_def w2_def wc_def r3_def w3_def wd_def
    r4_def w4_def src_def tgt_def
  have unfolded: "performTransfer_try env td w =
      (case r1 of Inl e \<Rightarrow> (Inl e, w1)
       | Inr sourceTracks \<Rightarrow>
          (case r3 of Inl e \<Rightarrow> (Inl e, w3)
           | Inr target \<Rightarrow>
              (case r4 of Inl e \<Rightarrow> (Inl e, w4)
               | Inr x \<Rightarrow>
                  (Inr (),
                   updateProgress 100 ''Transfer completed successfully!''
                     (saveTransferHistory
                        \<lparr>rec_sourcePlaylist = sourcePlaylist td,
                         rec_sourcePlatform = src,
                         rec_targetPlatform = tgt,
                         targetPlaylist = target,
                         transferredTracks = length (filter found matched),
                         totalTracks = length sourceTracks,
                         timestamp = clock w4\<rparr> w4)))))"
    unfolding performTransfer_try_def defs
    by (simp add: case_prod_beta split: sum.splits)
  obtain sourceTracks where r1: "r1 = Inr sourceTracks"
    using assms(1) unfolding unfolded by (cases r1) simp_all
  obtain target where r3: "r3 = Inr target"
    using assms(1) unfolding unfolded r1 by (cases r3) simp_all
  obtain x where r4: "r4 = Inr x"
    using assms(1) unfolding unfolded r1 r3 by (cases r4) simp_all
  have w': "w' = updateProgress 100 ''Transfer completed successfully!''
                     (saveTransferHistory
                        \<lparr>rec_sourcePlaylist = sourcePlaylist td,
                         rec_sourcePlatform = src,
                         rec_targetPlatform = tgt,
                         targetPlaylist = target,
                         transferredTracks = length (filter found matched),
                         totalTracks = length sourceTracks,
                         timestamp = clock w4\<rparr> w4)"
    using assms(1) unfolding unfolded r1 r3 r4 by simp
  have e1: "local_storage w1 = local_storage w" "clock w1 = clock w"
    "addTracks_submissions (calls w1) = addTracks_submissions (calls w)"
    by (simp_all add: w1_def wa_def)
  have e2: "local_storage w2 = local_storage w" "clock w2 = clock w"
    "addTracks_submissions (calls w2) = addTracks_submissions (calls w)"
    by (simp_all add: w2_def wb_def e1)
  have e3: "local_storage w3 = local_storage w" "clock w3 = clock w"
    "addTracks_submissions (calls w3) = addTracks_submissions (calls w)"
    by (simp_all add: w3_def wc_def e2)
  have e4: "local_storage w4 = local_storage w" "clock w4 = clock w"
    by (simp_all add: w4_def wd_def e3)
  have s4: "addTracks_submissions (calls w4) =
      addTracks_submissions (calls w) @ (if supported tgt then [validTracks matched] else [])"
    by (simp add: w4_def wd_def addTracksToPlaylist_submissions e3)
  have t1: "current_token src wa = current_token src w"
    unfolding wa_def by (rule same_env_token) simp_all
  have t2: "current_token tgt wb = current_token tgt w"
    unfolding wb_def by (rule same_env_token) (simp_all add: e1)
  have t3: "current_token tgt wc = current_token tgt w"
    unfolding wc_def by (rule same_env_token) (simp_all add: e2)
  have f1: "supported src \<and>
      getPlatformPlaylistTracks env src (current_token src w) ?pid = Inr sourceTracks"
    using r1 unfolding r1_def getPlaylistTracks_result t1 by (simp split: if_splits)
  have f3: "supported tgt \<and> createPlatformPlaylist env tgt (current_token tgt w) ?nm ?d = Inr target"
    using r3 unfolding r3_def createPlaylist_result t3 by (simp split: if_splits)
  have m: "matched = map (\<lambda>t. search_result t (searchTrack env tgt (current_token tgt w) t)) sourceTracks"
    unfolding matched_def searchTracksOnPlatform_results t2 r1 by simp
  have cnt: "length (filter found matched) =
      length (filter (resolves env tgt (current_token tgt w)) sourceTracks)"
    unfolding m by (metis filter_found_results length_map)
  have vt: "validTracks matched =
      map (\<lambda>t. search_result t (searchTrack env tgt (current_token tgt w) t))
        (filter (resolves env tgt (current_token tgt w)) sourceTracks)"
    unfolding m validTracks_results
    by (induction sourceTracks) (simp_all add: resolves_def)
  have h: "history_of w' =
      take 50 (\<lparr>rec_sourcePlaylist = sourcePlaylist td,
                rec_sourcePlatform = src,
                rec_targetPlatform = tgt,
                targetPlaylist = target,
                transferredTracks = length (filter (resolves env tgt (current_token tgt w)) sourceTracks),
                totalTracks = length sourceTracks,
                timestamp = clock w\<rparr> # history_of w)"
    unfolding w' cnt e4
    using saveTransferHistory_history e4(1)
    by (simp add: history_of_def)
  have c: "addTracks_submissions (calls w') = addTracks_submissions (calls w) @
      [map (\<lambda>t. search_result t (searchTrack env tgt (current_token tgt w) t))
         (filter (resolves env tgt (current_token tgt w)) sourceTracks)]"
    unfolding w' using s4 f3 vt by simp
  from f1 f3 h c show ?thesis by blast
qed

lemma current_token_frame [simp]:
  "current_token p (suspend w) = current_token p w"
  "current_token p (updateProgress q m w) = current_token p w"
  "current_token p (log_call e w) = current_token p w"
  "current_token p (snd (getPlaylistTracks env p1 pid w)) = current_token p w"
  "current_token p (snd (searchTracksOnPlatform env p1 trs w)) = current_token p w"
  "current_token p (snd (createPlaylist env p1 nm d w)) = current_token p w"
  "current_token p (snd (addTracksToPlaylist env p1 pid ms w)) = current_token p w"
  by (rule current_token_cong; simp)+

lemma performTransfer_calls:
  "calls (performTransfer env td w) = calls (snd (performTransfer_try env td w))"
  by (simp add: performTransfer_def catch_transfer_def finally_transfer_def Let_def
      case_prod_beta split: sum.splits)

lemma performTransfer_history:
  "history_of (performTransfer env td w) = history_of (snd (performTransfer_try env td w))"
  by (simp add: performTransfer_def catch_transfer_def finally_transfer_def Let_def
      history_of_def updateProgress_def case_prod_beta split: sum.splits)

lemma performTransfer_try_submissions:
  assumes "supported (sourcePlatform td)" "supported (targetPlatform td)"
    and "getPlatformPlaylistTracks env (sourcePlatform td) (current_token (sourcePlatform td) w)
           (pl_id (sourcePlaylist td)) = Inr sourceTracks"
    and "createPlatformPlaylist env (targetPlatform td) (current_token (targetPlatform td) w)
           (pl_name (sourcePlaylist td)) (pl_description (sourcePlaylist td)) = Inr target"
  shows "addTracks_submissions (calls (snd (performTransfer_try env td w))) =
         addTracks_submissions (calls w) @
           [validTracks (map (\<lambda>t. search_result t
               (searchTrack env (targetPlatform td) (current_token (targetPlatform td) w) t))
               sourceTracks)]"
  using assms
  by (simp add: performTransfer_try_def case_prod_beta getPlaylistTracks_result
      createPlaylist_result searchTracksOnPlatform_results addTracksToPlaylist_submissions
      split: sum.splits)

lemma found_results:
  "map found (map (\<lambda>t. search_result t (searchTrack env p tok t)) trs) =
     map (resolves env p tok) trs"
  by (simp add: resolves_def)

lemma performTransfer_try_ignores_options:
  "performTransfer_try env (td\<lparr>options := opts\<rparr>) w = performTransfer_try env td w"
  unfolding performTransfer_try_def by (simp cong: prod.case_cong sum.case_cong)

lemma performTransfer_ignores_options:
  "performTransfer env (td\<lparr>options := opts\<rparr>) w = performTransfer env td w"
  unfolding performTransfer_def performTransfer_try_ignores_options ..

section \<open>The claims\<close>

subsection \<open>Starting a transfer\<close>

lemma handleStartTransfer_running:
  "isTransferring ts \<Longrightarrow>
   handleStartTransfer td ts =
     (ts\<lparr>isTransferring := False\<rparr>, Failure ''Transfer already in progress'', None)"
  by (simp add: handleStartTransfer_def)

text \<open>
  C1. The claim: a \<open>startTransfer\<close> that arrives while a job is running is answered with the
  conflict error and leaves \<open>isTransferring\<close>, \<open>currentTransfer\<close>, \<open>progress\<close> and \<open>errors\<close> as
  they were. The code answers with the error, starts nothing and keeps \<open>currentTransfer\<close>,
  \<open>progress\<close> and \<open>errors\<close>, but the \<open>catch\<close> of line 236 sets \<open>isTransferring\<close> to
  \<open>false\<close> although the first job is still running. Evaluated at \<open>running_state\<close>:
\<close>

theorem startTransfer_while_running_clears_flag:
  "isTransferring running_state
   \<and> handleStartTransfer (sample_request two_tracks 50) running_state =
       (running_state\<lparr>isTransferring := False\<rparr>, Failure ''Transfer already in progress'', None)
   \<and> isTransferring (fst (handleStartTransfer (sample_request two_tracks 50) running_state))
       \<noteq> isTransferring running_state"
  by (simp add: handleStartTransfer_def running_state_def)

text \<open>
  C2. The claim: a request whose source and target platform are equal, or whose playlist has
  no tracks, is rejected with a validation error and no job is created. The handler does
  not look at the request: from the idle state it accepts the request with equal platforms
  and an empty playlist, marks the job as running and hands it to \<open>performTransfer\<close>.
\<close>

theorem same_platform_request_accepted:
  "sourcePlatform same_platform_request = targetPlatform same_platform_request
   \<and> tracks (sourcePlaylist same_platform_request) = []
   \<and> \<not> isTransferring idle_state
   \<and> handleStartTransfer same_platform_request idle_state =
       (\<lparr>isTransferring = True, currentTransfer = Some same_platform_request, progress = 0,
         errors = [], message = None\<rparr>,
        Success ''Transfer started'', Some same_platform_request)"
  by (simp add: handleStartTransfer_def same_platform_request_def idle_state_def
      sample_playlist_def)

text \<open>
  C2, amended: whenever no job is running, \<open>handleStartTransfer\<close> accepts the request,
  whatever its platforms and tracks: it sets \<open>isTransferring\<close>, stores the request as
  \<open>currentTransfer\<close>, resets \<open>progress\<close> and \<open>errors\<close>, answers with success and starts
  \<open>performTransfer\<close> on the request.
\<close>

theorem handleStartTransfer_accepts_when_idle:
  "\<not> isTransferring ts \<Longrightarrow>
   handleStartTransfer td ts =
     (ts\<lparr>isTransferring := True, currentTransfer := Some td, progress := 0, errors := []\<rparr>,
      Success ''Transfer started'', Some td)"
  by (simp add: handleStartTransfer_def)

theorem handleStartTransfer_accepts_when_idle_witness:
  "\<not> isTransferring idle_state
   \<and> handleStartTransfer (sample_request two_tracks 50) idle_state =
       (idle_state\<lparr>isTransferring := True,
          currentTransfer := Some (sample_request two_tracks 50), progress := 0, errors := []\<rparr>,
        Success ''Transfer started'', Some (sample_request two_tracks 50))"
proof -
  have idle: "\<not> isTransferring idle_state"
    by (simp add: idle_state_def)
  from idle handleStartTransfer_accepts_when_idle [OF idle, of "sample_request two_tracks 50"]
  show ?thesis by simp
qed

subsection \<open>Cancelling\<close>

text \<open>
  C3. The claim: after \<open>cancelTransfer\<close> during matching or insertion no further iteration
  or batch begins, the job ends as cancelled, and the final progress is at most the progress
  at the time of the request. \<open>handleCancelTransfer\<close> resets three fields of
  \<open>transferState\<close> and sets nothing that \<open>performTransfer\<close> reads. In the run
  \<open>cancelled_while_matching\<close> the message is handled during the first search, at progress 30:
  the second search, the creation of the playlist and the insertion follow, a record with
  two transferred tracks is written, and the job ends at progress 100 with the message of a
  completed transfer. In \<open>cancelled_while_inserting\<close> the message is handled during the add
  call, at progress 80, and the job ends the same way.
\<close>

theorem cancel_does_not_stop_the_transfer:
  "calls cancelled_while_matching =
     [FetchTracksCall ''spotify'' ''source-1'',
      SearchTrackCall ''youtube'' (sample_track 1),
      CancelHandled 30,
      SearchTrackCall ''youtube'' (sample_track 2),
      CreatePlaylistCall ''youtube'' ''Mix'' '''',
      AddTracksCall ''youtube'' ''target-1''
        [search_result (sample_track 1) (finds_all ''youtube'' (Some sample_token) (sample_track 1)),
         search_result (sample_track 2) (finds_all ''youtube'' (Some sample_token) (sample_track 2))]]
   \<and> progress (transferState cancelled_while_matching) = 100
   \<and> message (transferState cancelled_while_matching) = Some ''Transfer completed successfully!''
   \<and> errors (transferState cancelled_while_matching) = []
   \<and> map transferredTracks (history_of cancelled_while_matching) = [2]
   \<and> calls cancelled_while_inserting =
     [FetchTracksCall ''spotify'' ''source-1'',
      SearchTrackCall ''youtube'' (sample_track 1),
      SearchTrackCall ''youtube'' (sample_track 2),
      CreatePlaylistCall ''youtube'' ''Mix'' '''',
      AddTracksCall ''youtube'' ''target-1''
        [search_result (sample_track 1) (finds_all ''youtube'' (Some sample_token) (sample_track 1)),
         search_result (sample_track 2) (finds_all ''youtube'' (Some sample_token) (sample_track 2))],
      CancelHandled 80]
   \<and> progress (transferState cancelled_while_inserting) = 100
   \<and> message (transferState cancelled_while_inserting) = Some ''Transfer completed successfully!''
   \<and> map transferredTracks (history_of cancelled_while_inserting) = [2]"
  by (intro conjI; code_simp)

subsection \<open>Retrying\<close>

text \<open>
  C4. The claim has three parts that the code does not do. It has no notion of a transient
  error: \<open>always_AuthError\<close> fails with a non-transient error on attempt 1 and is invoked
  three times when \<open>maxRetries\<close> is 3. And with \<open>maxRetries = 0\<close> the loop body never runs:
  the operation is not invoked at all and the call returns \<open>undefined\<close>, so no first failure
  is surfaced.
\<close>

theorem non_transient_error_is_retried:
  "always_AuthError 0 = Inl AuthError
   \<and> \<not> isTransient AuthError
   \<and> invocations (retryOperation always_AuthError 3) = 3
   \<and> invocations (retryOperation always_AuthError 3) \<noteq> 1
   \<and> waits (retryOperation always_AuthError 3) = [1000, 2000]
   \<and> invocations (retryOperation always_AuthError 0) = 0
   \<and> outcome (retryOperation always_AuthError 0) = ReturnedUndefined"
  by (simp add: retryOperation_def retry_loop.simps always_AuthError_def isTransient_def)

text \<open>
  C4, amended: for every operation and every \<open>maxRetries = N\<close>, \<open>retryOperation\<close> invokes the
  operation at most \<open>N\<close> times. When \<open>N \<ge> 1\<close> and every one of the \<open>N\<close> attempts fails, it
  invokes the operation exactly \<open>N\<close> times, whatever the errors are, and throws the error of
  the last attempt. When the attempts before number \<open>k + 1 \<le> N\<close> fail and that one succeeds,
  it invokes the operation exactly \<open>k + 1\<close> times and returns its value.
\<close>

theorem retryOperation_attempts:
  "invocations (retryOperation operation N) \<le> N
   \<and> (0 < N \<and> (\<forall>k<N. isl (operation k)) \<longrightarrow>
        invocations (retryOperation operation N) = N
      \<and> outcome (retryOperation operation N) = Threw (projl (operation (N - 1))))
   \<and> (k < N \<and> (\<forall>j<k. isl (operation j)) \<and> operation k = Inr v \<longrightarrow>
        invocations (retryOperation operation N) = Suc k
      \<and> outcome (retryOperation operation N) = Returned v)"
proof (intro conjI impI)
  show "invocations (retryOperation operation N) \<le> N"
    using retry_loop_invocations [of 1 0 operation N "[]"] by (simp add: retryOperation_def)
next
  assume a: "0 < N \<and> (\<forall>k<N. isl (operation k))"
  then have "retry_loop operation N 1 0 [] =
      \<lparr>outcome = Threw (projl (operation (N - 1))), invocations = N,
       waits = [] @ map (\<lambda>a. 1000 * a) [1..<N]\<rparr>"
    by (intro retry_loop_all_fail) simp_all
  then show "invocations (retryOperation operation N) = N"
    and "outcome (retryOperation operation N) = Threw (projl (operation (N - 1)))"
    by (simp_all add: retryOperation_def)
next
  assume a: "k < N \<and> (\<forall>j<k. isl (operation j)) \<and> operation k = Inr v"
  then have "retry_loop operation N 1 0 [] =
      \<lparr>outcome = Returned v, invocations = Suc k,
       waits = [] @ map (\<lambda>a. 1000 * a) [1..<Suc k]\<rparr>"
    by (intro retry_loop_first_success) simp_all
  then show "invocations (retryOperation operation N) = Suc k"
    and "outcome (retryOperation operation N) = Returned v"
    by (simp_all add: retryOperation_def)
qed

theorem retryOperation_attempts_witness:
  "(0::nat) < 3
   \<and> isl (always_AuthError 0) \<and> isl (always_AuthError 1) \<and> isl (always_AuthError 2)
   \<and> invocations (retryOperation always_AuthError 3) \<le> 3
   \<and> invocations (retryOperation always_AuthError 3) = 3
   \<and> outcome (retryOperation always_AuthError 3) = Threw AuthError
   \<and> (1::nat) < 3 \<and> isl (fails_once 0) \<and> fails_once 1 = Inr 7
   \<and> invocations (retryOperation fails_once 3) = 2
   \<and> outcome (retryOperation fails_once 3) = Returned 7"
proof -
  have h1: "(0::nat) < 3 \<and> (\<forall>k<3. isl (always_AuthError k))"
    by (simp add: always_AuthError_def)
  have h2: "(1::nat) < 3 \<and> (\<forall>j<1. isl (fails_once j)) \<and> fails_once 1 = Inr 7"
    by (simp add: fails_once_def)
  from h1 retryOperation_attempts [of always_AuthError 3]
  have r1: "invocations (retryOperation always_AuthError 3) \<le> 3
      \<and> invocations (retryOperation always_AuthError 3) = 3
      \<and> outcome (retryOperation always_AuthError 3) = Threw (projl (always_AuthError 2))"
    by simp
  from h2 retryOperation_attempts [of fails_once 3 1 7]
  have r2: "invocations (retryOperation fails_once 3) = 2
      \<and> outcome (retryOperation fails_once 3) = Returned 7"
    by simp
  from r1 r2 show ?thesis
    by (simp add: always_AuthError_def fails_once_def)
qed

subsection \<open>The history\<close>

lemma history_of_appends:
  "history_of (fold saveTransferHistory rs w) =
     (if rs = [] then history_of w else take 50 (rev rs @ history_of w))"
proof (induction rs arbitrary: w)
  case Nil
  show ?case by simp
next
  case (Cons r rs)
  show ?case
    by (cases "rs = []") (simp_all add: Cons.IH saveTransferHistory_history take_Cons')
qed

text \<open>
  C5. \<open>saveTransferHistory\<close> puts the record at the front and keeps the first 50 entries; a
  history of at most 50 records stays so under any sequence of appends; and 51 appends to
  an empty history leave the last 50 records, newest first: the most recent one is at index
  0 and the first one is gone.
\<close>

theorem history_bounded:
  "history_of (saveTransferHistory r w) = take 50 (r # history_of w)
   \<and> (length (history_of w) \<le> 50 \<longrightarrow>
        length (history_of (fold saveTransferHistory rs w)) \<le> 50)
   \<and> (history_of w = [] \<and> length rs = 51 \<longrightarrow>
        history_of (fold saveTransferHistory rs w) = rev (tl rs)
      \<and> history_of (fold saveTransferHistory rs w) ! 0 = last rs
      \<and> (distinct rs \<longrightarrow> hd rs \<notin> set (history_of (fold saveTransferHistory rs w))))"
proof (intro conjI impI)
  show "history_of (saveTransferHistory r w) = take 50 (r # history_of w)"
    by (rule saveTransferHistory_history)
next
  assume "length (history_of w) \<le> 50"
  then show "length (history_of (fold saveTransferHistory rs w)) \<le> 50"
    by (simp add: history_of_appends del: take_append)
next
  assume a: "history_of w = [] \<and> length rs = 51"
  then obtain r0 rest where rs: "rs = r0 # rest" and len: "length rest = 50"
    by (cases rs) simp_all
  from rs len have ne: "rest \<noteq> []" by auto
  have "history_of (fold saveTransferHistory rs w) = take 50 (rev rs @ history_of w)"
    using rs by (simp only: history_of_appends) simp
  with a rs len show h: "history_of (fold saveTransferHistory rs w) = rev (tl rs)"
    by simp
  from ne h rs len show "history_of (fold saveTransferHistory rs w) ! 0 = last rs"
    by (simp add: hd_rev flip: hd_conv_nth)
  assume "distinct rs"
  with h rs show "hd rs \<notin> set (history_of (fold saveTransferHistory rs w))"
    by simp
qed

theorem history_bounded_witness:
  "length (history_of (started_world same_platform_request [])) \<le> 50
   \<and> history_of (started_world same_platform_request []) = []
   \<and> length fifty_one_records = 51
   \<and> distinct fifty_one_records
   \<and> history_of (saveTransferHistory (sample_record 0) (started_world same_platform_request []))
       = [sample_record 0]
   \<and> length (history_of (fold saveTransferHistory fifty_one_records
                (started_world same_platform_request []))) \<le> 50
   \<and> history_of (fold saveTransferHistory fifty_one_records
         (started_world same_platform_request [])) ! 0 = sample_record 50
   \<and> sample_record 0 \<notin> set (history_of (fold saveTransferHistory fifty_one_records
         (started_world same_platform_request [])))"
proof -
  let ?w = "started_world same_platform_request []"
  have e: "history_of ?w = []"
    by (simp add: history_of_def started_world_def)
  have l: "length fifty_one_records = 51"
    by (simp add: fifty_one_records_def)
  have "inj sample_record"
    by (rule injI) (simp add: sample_record_def)
  then have d: "distinct fifty_one_records"
    unfolding fifty_one_records_def by (simp add: distinct_map inj_on_def inj_def)
  have hd_last: "hd fifty_one_records = sample_record 0" "last fifty_one_records = sample_record 50"
    by (simp_all add: fifty_one_records_def hd_map last_map)
  have p: "length (history_of ?w) \<le> 50"
    using e by simp
  note th = history_bounded [of "sample_record 0" ?w fifty_one_records]
  from th have "history_of (saveTransferHistory (sample_record 0) ?w) =
      take 50 (sample_record 0 # history_of ?w)"
    by (rule conjunct1)
  then have c1: "history_of (saveTransferHistory (sample_record 0) ?w) = [sample_record 0]"
    using e by simp
  from th p have c2: "length (history_of (fold saveTransferHistory fifty_one_records ?w)) \<le> 50"
    by blast
  from th e l d
  have "history_of (fold saveTransferHistory fifty_one_records ?w) ! 0 = last fifty_one_records"
    by blast
  then have c3: "history_of (fold saveTransferHistory fifty_one_records ?w) ! 0 = sample_record 50"
    unfolding hd_last .
  from th e l d
  have "hd fifty_one_records \<notin> set (history_of (fold saveTransferHistory fifty_one_records ?w))"
    by blast
  then have c4: "sample_record 0 \<notin> set (history_of (fold saveTransferHistory fifty_one_records ?w))"
    unfolding hd_last .
  from p e l d c1 c2 c3 c4 show ?thesis by blast
qed

subsection \<open>Matching and insertion\<close>

text \<open>
  C6. Whatever the world, the search records one result for every source track, in the
  order of the tracks, with \<open>found\<close> set exactly for the tracks that resolve: a search
  that finds nothing or throws ends neither the loop nor the job. When the source tracks
  were fetched and the target playlist was created, the run hands exactly one list to the
  platform's add function: the results of the tracks that resolve, in the order of the
  source tracks.
\<close>

theorem submitted_tracks_in_source_order:
  assumes "supported (sourcePlatform td)" and "supported (targetPlatform td)"
    and "getPlatformPlaylistTracks env (sourcePlatform td) (current_token (sourcePlatform td) w)
           (pl_id (sourcePlaylist td)) = Inr sourceTracks"
    and "createPlatformPlaylist env (targetPlatform td) (current_token (targetPlatform td) w)
           (pl_name (sourcePlaylist td)) (pl_description (sourcePlaylist td)) = Inr target"
  shows "map original (fst (searchTracksOnPlatform env (targetPlatform td) sourceTracks w0))
           = sourceTracks
       \<and> map found (fst (searchTracksOnPlatform env (targetPlatform td) sourceTracks w0))
           = map (resolves env (targetPlatform td) (current_token (targetPlatform td) w0))
               sourceTracks
       \<and> (\<exists>M. addTracks_submissions (calls (performTransfer env td w))
                 = addTracks_submissions (calls w) @ [M]
              \<and> M = filter found (map (\<lambda>t. search_result t
                       (searchTrack env (targetPlatform td)
                          (current_token (targetPlatform td) w) t)) sourceTracks)
              \<and> map original M
                 = filter (resolves env (targetPlatform td) (current_token (targetPlatform td) w))
                     sourceTracks)"
proof (intro conjI)
  show "map original (fst (searchTracksOnPlatform env (targetPlatform td) sourceTracks w0))
          = sourceTracks"
    by (simp add: searchTracksOnPlatform_results comp_def)
  show "map found (fst (searchTracksOnPlatform env (targetPlatform td) sourceTracks w0))
          = map (resolves env (targetPlatform td) (current_token (targetPlatform td) w0))
              sourceTracks"
    unfolding searchTracksOnPlatform_results by (rule found_results)
  let ?rs = "map (\<lambda>t. search_result t (searchTrack env (targetPlatform td)
                (current_token (targetPlatform td) w) t)) sourceTracks"
  have "addTracks_submissions (calls (performTransfer env td w))
          = addTracks_submissions (calls w) @ [filter found ?rs]"
    unfolding performTransfer_calls performTransfer_try_submissions [OF assms]
    by (simp only: validTracks_results)
  moreover have "map original (filter found ?rs)
      = filter (resolves env (targetPlatform td) (current_token (targetPlatform td) w))
          sourceTracks"
    by (rule filter_found_results)
  ultimately show "\<exists>M. addTracks_submissions (calls (performTransfer env td w))
                 = addTracks_submissions (calls w) @ [M]
              \<and> M = filter found ?rs
              \<and> map original M
                 = filter (resolves env (targetPlatform td) (current_token (targetPlatform td) w))
                     sourceTracks"
    by blast
qed

theorem submitted_tracks_in_source_order_witness:
  "supported (sourcePlatform (sample_request three_tracks 50))
   \<and> supported (targetPlatform (sample_request three_tracks 50))
   \<and> getPlatformPlaylistTracks (sample_adapters three_tracks finds_some) ''spotify''
        (Some sample_token) ''source-1'' = Inr three_tracks
   \<and> createPlatformPlaylist (sample_adapters three_tracks finds_some) ''youtube''
        (Some sample_token) ''Mix'' '''' = Inr (created_playlist ''youtube'' ''Mix'' '''')
   \<and> map (map (position \<circ> original))
        (addTracks_submissions (calls
          (performTransfer (sample_adapters three_tracks finds_some)
             (sample_request three_tracks 50)
             (started_world (sample_request three_tracks 50) [])))) = [[1, 3]]"
proof -
  let ?env = "sample_adapters three_tracks finds_some"
  let ?td = "sample_request three_tracks 50"
  let ?w = "started_world ?td []"
  have tok: "current_token ''spotify'' ?w = Some sample_token"
    "current_token ''youtube'' ?w = Some sample_token"
    by (simp_all add: current_token_def getAuthToken_def suspend_def started_world_def
        sample_token_def)
  have s1: "supported (sourcePlatform ?td)" and s2: "supported (targetPlatform ?td)"
    by (simp_all add: supported_def sample_request_def)
  have p: "sourcePlatform ?td = ''spotify''" "targetPlatform ?td = ''youtube''"
    by (simp_all add: sample_request_def)
  have f: "getPlatformPlaylistTracks ?env (sourcePlatform ?td)
             (current_token (sourcePlatform ?td) ?w) (pl_id (sourcePlaylist ?td)) = Inr three_tracks"
    by (simp add: sample_adapters_def)
  have c: "createPlatformPlaylist ?env (targetPlatform ?td) (current_token (targetPlatform ?td) ?w)
             (pl_name (sourcePlaylist ?td)) (pl_description (sourcePlaylist ?td))
           = Inr (created_playlist ''youtube'' ''Mix'' '''')"
    by (simp add: sample_adapters_def sample_request_def sample_playlist_def)
  from submitted_tracks_in_source_order [OF s1 s2 f c, of ?w]
  obtain M where sub: "addTracks_submissions (calls (performTransfer ?env ?td ?w))
        = addTracks_submissions (calls ?w) @ [M]"
    and ord: "map original M
        = filter (resolves ?env (targetPlatform ?td) (current_token (targetPlatform ?td) ?w))
            three_tracks"
    by blast
  have r: "filter (resolves ?env (targetPlatform ?td) (current_token (targetPlatform ?td) ?w))
             three_tracks = [sample_track 1, sample_track 3]"
    by (simp add: p tok resolves_def sample_adapters_def finds_some_def three_tracks_def
        sample_track_def)
  have e: "addTracks_submissions (calls ?w) = []"
    by (simp add: started_world_def)
  have "map (position \<circ> original) M = map position (map original M)"
    by simp
  also have "\<dots> = [1, 3]"
    unfolding ord r by (simp add: sample_track_def)
  finally have "map (map (position \<circ> original))
      (addTracks_submissions (calls (performTransfer ?env ?td ?w))) = [[1, 3]]"
    unfolding sub e by simp
  moreover have "getPlatformPlaylistTracks ?env ''spotify'' (Some sample_token) ''source-1''
           = Inr three_tracks"
    and "createPlatformPlaylist ?env ''youtube'' (Some sample_token) ''Mix'' ''''
           = Inr (created_playlist ''youtube'' ''Mix'' '''')"
    by (simp_all add: sample_adapters_def)
  ultimately show ?thesis using s1 s2 by blast
qed

text \<open>
  C7. A run whose \<open>try\<close> block reaches its end has fetched the source tracks and leaves the
  history with exactly one new record at its front; the record's \<open>totalTracks\<close> is the
  number of tracks fetched, its \<open>transferredTracks\<close> the number of them that resolve, which is
  the number of results with \<open>found\<close> set, and so at most \<open>totalTracks\<close>.
\<close>

theorem completed_transfer_writes_one_record:
  assumes "fst (performTransfer_try env td w) = Inr u"
  shows "\<exists>sourceTracks r.
           getPlatformPlaylistTracks env (sourcePlatform td)
             (current_token (sourcePlatform td) w) (pl_id (sourcePlaylist td)) = Inr sourceTracks
         \<and> history_of (performTransfer env td w) = take 50 (r # history_of w)
         \<and> totalTracks r = length sourceTracks
         \<and> transferredTracks r
             = length (filter found (fst (searchTracksOnPlatform env (targetPlatform td)
                 sourceTracks w)))
         \<and> transferredTracks r
             = length (filter (resolves env (targetPlatform td)
                 (current_token (targetPlatform td) w)) sourceTracks)
         \<and> 0 \<le> transferredTracks r \<and> transferredTracks r \<le> totalTracks r"
proof -
  from assms have "performTransfer_try env td w = (Inr u, snd (performTransfer_try env td w))"
    by (simp add: prod_eq_iff)
  from performTransfer_try_Inr [OF this]
  obtain sourceTracks target where
    f: "getPlatformPlaylistTracks env (sourcePlatform td)
          (current_token (sourcePlatform td) w) (pl_id (sourcePlaylist td)) = Inr sourceTracks"
    and h: "history_of (snd (performTransfer_try env td w)) =
      take 50 (\<lparr>rec_sourcePlaylist = sourcePlaylist td,
                rec_sourcePlatform = sourcePlatform td,
                rec_targetPlatform = targetPlatform td,
                targetPlaylist = target,
                transferredTracks = length (filter (resolves env (targetPlatform td)
                    (current_token (targetPlatform td) w)) sourceTracks),
                totalTracks = length sourceTracks,
                timestamp = clock w\<rparr> # history_of w)"
    by blast
  have n: "length (filter found (fst (searchTracksOnPlatform env (targetPlatform td)
               sourceTracks w)))
         = length (filter (resolves env (targetPlatform td)
               (current_token (targetPlatform td) w)) sourceTracks)"
    unfolding searchTracksOnPlatform_results by (metis filter_found_results length_map)
  show ?thesis
    apply (rule exI [of _ sourceTracks])
    apply (rule exI [of _ "\<lparr>rec_sourcePlaylist = sourcePlaylist td,
                rec_sourcePlatform = sourcePlatform td,
                rec_targetPlatform = targetPlatform td,
                targetPlaylist = target,
                transferredTracks = length (filter (resolves env (targetPlatform td)
                    (current_token (targetPlatform td) w)) sourceTracks),
                totalTracks = length sourceTracks,
                timestamp = clock w\<rparr>"])
    using f h n by (simp add: performTransfer_history)
qed

theorem completed_transfer_writes_one_record_witness:
  "fst (performTransfer_try (sample_adapters three_tracks finds_some)
          (sample_request three_tracks 50)
          (started_world (sample_request three_tracks 50) [])) = Inr ()
   \<and> sourcePlatform (sample_request three_tracks 50)
       \<noteq> targetPlatform (sample_request three_tracks 50)
   \<and> map totalTracks (history_of
         (performTransfer (sample_adapters three_tracks finds_some)
            (sample_request three_tracks 50)
            (started_world (sample_request three_tracks 50) []))) = [3]
   \<and> map transferredTracks (history_of
         (performTransfer (sample_adapters three_tracks finds_some)
            (sample_request three_tracks 50)
            (started_world (sample_request three_tracks 50) []))) = [2]"
proof -
  let ?env = "sample_adapters three_tracks finds_some"
  let ?td = "sample_request three_tracks 50"
  let ?w = "started_world ?td []"
  have tok: "current_token ''youtube'' ?w = Some sample_token"
    by (simp add: current_token_def getAuthToken_def suspend_def started_world_def
        sample_token_def)
  have p: "targetPlatform ?td = ''youtube''"
    by (simp add: sample_request_def)
  have ok: "fst (performTransfer_try ?env ?td ?w) = Inr ()"
    by code_simp
  have e: "history_of ?w = []"
    by (simp add: history_of_def started_world_def)
  from completed_transfer_writes_one_record [OF ok]
  obtain sourceTracks r where
    f: "getPlatformPlaylistTracks ?env (sourcePlatform ?td)
          (current_token (sourcePlatform ?td) ?w) (pl_id (sourcePlaylist ?td)) = Inr sourceTracks"
    and h: "history_of (performTransfer ?env ?td ?w) = take 50 (r # history_of ?w)"
    and t: "totalTracks r = length sourceTracks"
    and m: "transferredTracks r = length (filter (resolves ?env (targetPlatform ?td)
                 (current_token (targetPlatform ?td) ?w)) sourceTracks)"
    by blast
  from f have s: "sourceTracks = three_tracks"
    by (simp add: sample_adapters_def)
  have "filter (resolves ?env (targetPlatform ?td) (current_token (targetPlatform ?td) ?w))
             three_tracks = [sample_track 1, sample_track 3]"
    by (simp add: p tok resolves_def sample_adapters_def finds_some_def three_tracks_def
        sample_track_def)
  with m s have m2: "transferredTracks r = 2"
    by simp
  from t s have t3: "totalTracks r = 3"
    by (simp add: three_tracks_def)
  from h e have "history_of (performTransfer ?env ?td ?w) = [r]"
    by simp
  with m2 t3 ok show ?thesis
    by (simp add: sample_request_def)
qed

text \<open>
  C8. The claim: the matched tracks are inserted in batches of \<open>options.batchSize\<close>, one add
  call per batch, so five matched tracks with batch size 2 give three calls of 2, 2 and 1
  tracks. \<open>addTracksToPlaylist\<close> receives no batch size and \<open>performTransfer\<close> never reads
  \<open>options\<close>: in the run \<open>five_matched_run\<close>, with batch size 2 and five matched tracks, the
  platform's add function is called once, with all five tracks.
\<close>

theorem five_matched_tracks_one_call:
  "batchSize (options (sample_request five_tracks 2)) = 2
   \<and> map length (addTracks_submissions (calls five_matched_run)) = [5]
   \<and> map length (addTracks_submissions (calls five_matched_run)) \<noteq> [2, 2, 1]
   \<and> map (map (position \<circ> original)) (addTracks_submissions (calls five_matched_run))
       = [[1, 3, 4, 5, 6]]"
  by (intro conjI; code_simp)

text \<open>
  C8, amended: \<open>addTracksToPlaylist\<close> hands all matched tracks (the results with \<open>found\<close> and
  \<open>match\<close> set), in their original order, to the platform's add function in a single call,
  when the platform is one of the three it knows, and makes no call otherwise; the options
  of the request, the batch size among them, have no effect on the run.
\<close>

theorem addTracksToPlaylist_single_call:
  "addTracks_submissions (calls (snd (addTracksToPlaylist env platform pid ms w)))
     = addTracks_submissions (calls w) @ (if supported platform then [validTracks ms] else [])
   \<and> performTransfer env (td\<lparr>options := opts\<rparr>) w = performTransfer env td w"
  by (simp add: addTracksToPlaylist_submissions performTransfer_ignores_options)

theorem addTracksToPlaylist_single_call_witness:
  "supported ''youtube''
   \<and> map length (addTracks_submissions (calls (snd
        (addTracksToPlaylist (sample_adapters five_tracks finds_some) ''youtube'' ''target-1''
           (map (\<lambda>t. search_result t (finds_some ''youtube'' (Some sample_token) t)) five_tracks)
           (started_world (sample_request five_tracks 2) []))))) = [5]
   \<and> performTransfer (sample_adapters five_tracks finds_some)
        ((sample_request five_tracks 50)\<lparr>options := \<lparr>conflictResolution = Skip, batchSize = 2\<rparr>\<rparr>)
        (started_world (sample_request five_tracks 2) []) =
      performTransfer (sample_adapters five_tracks finds_some) (sample_request five_tracks 50)
        (started_world (sample_request five_tracks 2) [])"
proof -
  let ?env = "sample_adapters five_tracks finds_some"
  let ?ms = "map (\<lambda>t. search_result t (finds_some ''youtube'' (Some sample_token) t)) five_tracks"
  let ?w = "started_world (sample_request five_tracks 2) []"
  note th = addTracksToPlaylist_single_call [where env = ?env and platform = "''youtube''"
      and pid = "''target-1''" and ms = ?ms and w = ?w and td = "sample_request five_tracks 50"
      and opts = "\<lparr>conflictResolution = Skip, batchSize = 2\<rparr>"]
  have s: "supported ''youtube''"
    by (simp add: supported_def)
  have e: "addTracks_submissions (calls ?w) = []"
    by (simp add: started_world_def)
  have v: "length (validTracks ?ms) = 5"
    by (simp add: validTracks_def five_tracks_def finds_some_def sample_track_def)
  from th s e v show ?thesis
    by simp
qed

text \<open>
  C9. For the track at index \<open>i\<close>, with \<open>answer\<close> what \<open>searchTrack\<close> does for it: the result
  at index \<open>i\<close> belongs to that track; a search that returns nothing gives \<open>found = false\<close>
  with neither an error nor a match; the result has an error exactly when the search threw,
  and then \<open>found\<close> is false; and it has a match exactly when \<open>found\<close> is true.
\<close>

theorem search_result_error_iff_failed:
  assumes "i < length trs"
    and "searchTrack env platform (current_token platform w) (trs ! i) = answer"
    and "fst (searchTracksOnPlatform env platform trs w) ! i = r"
  shows "original r = trs ! i
       \<and> (answer = Inr None \<longrightarrow> \<not> found r \<and> error r = None \<and> match r = None)
       \<and> (error r \<noteq> None \<longleftrightarrow> isl answer)
       \<and> (isl answer \<longrightarrow> \<not> found r)
       \<and> (match r \<noteq> None \<longleftrightarrow> found r)"
proof -
  from assms have "r = search_result (trs ! i) answer"
    by (simp add: searchTracksOnPlatform_results)
  then show ?thesis
    by (cases answer) (auto split: option.splits)
qed

theorem search_result_error_iff_failed_witness:
  "(1::nat) < length failing_tracks
   \<and> searchTrack (sample_adapters failing_tracks finds_some) ''youtube''
        (current_token ''youtube'' (started_world (sample_request failing_tracks 50) []))
        (failing_tracks ! 1) = Inr None
   \<and> \<not> found (fst (searchTracksOnPlatform (sample_adapters failing_tracks finds_some) ''youtube''
          failing_tracks (started_world (sample_request failing_tracks 50) [])) ! 1)
   \<and> error (fst (searchTracksOnPlatform (sample_adapters failing_tracks finds_some) ''youtube''
          failing_tracks (started_world (sample_request failing_tracks 50) [])) ! 1) = None
   \<and> match (fst (searchTracksOnPlatform (sample_adapters failing_tracks finds_some) ''youtube''
          failing_tracks (started_world (sample_request failing_tracks 50) [])) ! 1) = None
   \<and> (2::nat) < length failing_tracks
   \<and> searchTrack (sample_adapters failing_tracks finds_some) ''youtube''
        (current_token ''youtube'' (started_world (sample_request failing_tracks 50) []))
        (failing_tracks ! 2) = Inl ''Network error''
   \<and> error (fst (searchTracksOnPlatform (sample_adapters failing_tracks finds_some) ''youtube''
          failing_tracks (started_world (sample_request failing_tracks 50) [])) ! 2) \<noteq> None
   \<and> \<not> found (fst (searchTracksOnPlatform (sample_adapters failing_tracks finds_some) ''youtube''
          failing_tracks (started_world (sample_request failing_tracks 50) [])) ! 2)"
proof -
  let ?env = "sample_adapters failing_tracks finds_some"
  let ?w = "started_world (sample_request failing_tracks 50) []"
  let ?rs = "fst (searchTracksOnPlatform ?env ''youtube'' failing_tracks ?w)"
  have l1: "(1::nat) < length failing_tracks" and l2: "(2::nat) < length failing_tracks"
    by (simp_all add: failing_tracks_def)
  have a1: "searchTrack ?env ''youtube'' (current_token ''youtube'' ?w) (failing_tracks ! 1)
      = Inr None"
    by (simp add: sample_adapters_def finds_some_def failing_tracks_def sample_track_def)
  have a2: "searchTrack ?env ''youtube'' (current_token ''youtube'' ?w) (failing_tracks ! 2)
      = Inl ''Network error''"
    by (simp add: sample_adapters_def finds_some_def failing_tracks_def sample_track_def)
  from search_result_error_iff_failed [OF l1 a1 refl]
  have r1: "\<not> found (?rs ! 1)" "error (?rs ! 1) = None" "match (?rs ! 1) = None"
    by simp_all
  from search_result_error_iff_failed [OF l2 a2 refl]
  have r2: "error (?rs ! 2) \<noteq> None" "\<not> found (?rs ! 2)"
    by simp_all
  from l1 l2 a1 a2 r1 r2 show ?thesis
    by blast
qed

subsection \<open>The end of a transfer\<close>

text \<open>
  C10. \<open>performTransfer\<close> is a total function of the adapters' answers, and whichever way
  its \<open>try\<close> block ends, and whatever cancel messages were handled on the way, the
  \<open>finally\<close> leaves \<open>isTransferring\<close> false: a \<open>startTransfer\<close> that follows is accepted.
\<close>

theorem performTransfer_clears_isTransferring:
  "\<not> isTransferring (transferState (performTransfer env td w))
   \<and> handleStartTransfer td' (transferState (performTransfer env td w)) =
       ((transferState (performTransfer env td w))
          \<lparr>isTransferring := True, currentTransfer := Some td', progress := 0, errors := []\<rparr>,
        Success ''Transfer started'', Some td')"
proof -
  have "\<not> isTransferring (transferState (performTransfer env td w))"
    by (simp add: performTransfer_def finally_transfer_def case_prod_beta split: sum.splits)
  then show ?thesis
    by (simp add: handleStartTransfer_def)
qed

theorem performTransfer_clears_isTransferring_witness:
  "isTransferring (transferState (started_world amazon_request []))
   \<and> errors (transferState (performTransfer (sample_adapters three_tracks finds_some)
        amazon_request (started_world amazon_request [])))
       = [''Platform amazon not supported for track fetching'']
   \<and> \<not> isTransferring (transferState (performTransfer (sample_adapters three_tracks finds_some)
          amazon_request (started_world amazon_request [])))
   \<and> isTransferring (transferState (started_world (sample_request three_tracks 50) []))
   \<and> fst (performTransfer_try (sample_adapters three_tracks finds_some)
          (sample_request three_tracks 50)
          (started_world (sample_request three_tracks 50) [])) = Inr ()
   \<and> \<not> isTransferring (transferState (performTransfer (sample_adapters three_tracks finds_some)
          (sample_request three_tracks 50)
          (started_world (sample_request three_tracks 50) [])))"
proof -
  let ?env = "sample_adapters three_tracks finds_some"
  have s1: "isTransferring (transferState (started_world amazon_request []))"
    and s2: "isTransferring (transferState (started_world (sample_request three_tracks 50) []))"
    by (simp_all add: started_world_def handleStartTransfer_def idle_state_def)
  have e: "errors (transferState (performTransfer ?env amazon_request
        (started_world amazon_request [])))
      = [''Platform amazon not supported for track fetching'']"
    by code_simp
  have c: "fst (performTransfer_try ?env (sample_request three_tracks 50)
        (started_world (sample_request three_tracks 50) [])) = Inr ()"
    by code_simp
  from performTransfer_clears_isTransferring [of ?env amazon_request
      "started_world amazon_request []"]
  have f1: "\<not> isTransferring (transferState (performTransfer ?env amazon_request
        (started_world amazon_request [])))"
    by (rule conjunct1)
  from performTransfer_clears_isTransferring [of ?env "sample_request three_tracks 50"
      "started_world (sample_request three_tracks 50) []"]
  have f2: "\<not> isTransferring (transferState (performTransfer ?env
        (sample_request three_tracks 50) (started_world (sample_request three_tracks 50) [])))"
    by (rule conjunct1)
  from s1 s2 e c f1 f2 show ?thesis
    by blast
qed

end
